theory Spec2Isabelle
  imports Main
begin

section \<open>Logo Downloader Pro: cache store, scorer, domain generator, search orchestrator\<close>

text \<open>
  A shallow embedding of \<^verbatim>\<open>src/logo_downloader.py\<close>: the classes \<^verbatim>\<open>Database\<close>,
  \<^verbatim>\<open>LogoResult\<close>, \<^verbatim>\<open>LogoSearchWorker\<close> and \<^verbatim>\<open>LogoSearchManager\<close>. Strings are
  \<^typ>\<open>string\<close>, Python's \<^verbatim>\<open>None\<close> is \<^term>\<open>None\<close>, Python integers are \<^typ>\<open>int\<close>,
  mutation is explicit state passing, and a raised exception is a value of a sum type.
\<close>

subsection \<open>Data model\<close>

text \<open>
  \<^verbatim>\<open>class LogoResult\<close>. The fields \<^verbatim>\<open>id\<close> (a random UUID) and \<^verbatim>\<open>pixmap\<close> (a GUI
  object) carry no information any function below reads; they are left out. The
  constructor's default for \<^verbatim>\<open>score\<close> is the integer 0 and the cache column is
  \<^verbatim>\<open>score INTEGER\<close>; the score is an \<^typ>\<open>int\<close>.
\<close>

record LogoResult =
  company_name :: string
  image_data :: "string option"
  image_url :: "string option"
  source :: "string option"
  format_type :: "string option"
  width :: "int option"
  height :: "int option"
  file_path :: "string option"
  score :: int
  metadata :: "(string \<times> string) list"

text \<open>
  A Python dictionary with string keys, in insertion order; \<open>dict_set\<close> is
  \<^verbatim>\<open>d[k] = v\<close>.
\<close>

definition dict_set :: "string \<Rightarrow> 'v \<Rightarrow> (string \<times> 'v) list \<Rightarrow> (string \<times> 'v) list" where
  "dict_set k v d =
     (if k \<in> set (map fst d) then map (\<lambda>(k', v'). if k' = k then (k, v) else (k', v')) d
      else d @ [(k, v)])"

text \<open>An entry of the module constant \<^verbatim>\<open>LOGO_SOURCES\<close>.\<close>

record source_desc =
  name :: string
  priority :: int
  base_quality :: int
  enabled :: bool

definition mk_source :: "string \<Rightarrow> int \<Rightarrow> int \<Rightarrow> bool \<Rightarrow> source_desc" where
  "mk_source n p q e = \<lparr>name = n, priority = p, base_quality = q, enabled = e\<rparr>"

definition LOGO_SOURCES :: "source_desc list" where
  "LOGO_SOURCES =
    [mk_source ''SimpleIcons'' 5 80 True,
     mk_source ''Brandfetch'' 10 90 True,
     mk_source ''Clearbit'' 8 75 True,
     mk_source ''Wikipedia'' 7 85 True,
     mk_source ''BrandDB'' 6 70 True,
     mk_source ''CompanyWebsite'' 9 85 True,
     mk_source ''SocialMedia'' 4 75 True,
     mk_source ''GoogleSearch'' 3 65 True,
     mk_source ''BingSearch'' 2 60 True,
     mk_source ''DuckDuckGo'' 1 60 True,
     mk_source ''VectorDB'' 5 80 True]"

text \<open>
  The settings dictionary as the worker and the manager read it: every read is
  \<^verbatim>\<open>settings.get(key, default)\<close>, so a key may be absent (\<^term>\<open>None\<close>) and the reader
  supplies the default.
\<close>

record settings =
  max_results :: "int option"
  search_all_sources :: "bool option"
  concurrent_searches :: "int option"
  cache_expiry_days :: "nat option"
  google_api_key :: "string option"
  google_cx :: "string option"
  bing_api_key :: "string option"

definition get_or :: "'a option \<Rightarrow> 'a \<Rightarrow> 'a" where
  "get_or v d = (case v of None \<Rightarrow> d | Some x \<Rightarrow> x)"

subsection \<open>Database\<close>

text \<open>
  The three tables of \<^verbatim>\<open>Database.init_db\<close>. A table is the list of its rows in
  insertion order together with the largest row id handed out so far
  (\<^verbatim>\<open>INTEGER PRIMARY KEY AUTOINCREMENT\<close>). The key columns are \<^verbatim>\<open>NOT NULL\<close>, so a row
  holds a plain string there. Timestamps are seconds (\<^verbatim>\<open>CURRENT_TIMESTAMP\<close> has
  one-second resolution); the current time is an argument of every operation that
  reads the clock. The model is of a database whose connection was opened by
  \<^verbatim>\<open>init_db\<close>.
\<close>

record cache_row =
  c_id :: nat
  c_company_name :: string
  c_source :: string
  c_format_type :: string
  c_image_data :: "string option"
  c_image_url :: "string option"
  c_width :: "int option"
  c_height :: "int option"
  c_score :: int
  c_timestamp :: int

record history_row =
  h_id :: nat
  h_company_name :: string
  h_timestamp :: int
  h_results_count :: int

record favorite_row =
  f_id :: nat
  f_company_name :: string
  f_image_data :: "string option"
  f_format_type :: string
  f_timestamp :: int

record database =
  logo_cache :: "cache_row list"
  logo_cache_seq :: nat
  search_history :: "history_row list"
  search_history_seq :: nat
  favorites :: "favorite_row list"
  favorites_seq :: nat

definition empty_db :: database where
  "empty_db = \<lparr>logo_cache = [], logo_cache_seq = 0, search_history = [],
     search_history_seq = 0, favorites = [], favorites_seq = 0\<rparr>"

definition cache_key :: "cache_row \<Rightarrow> string \<times> string \<times> string" where
  "cache_key row = (c_company_name row, c_source row, c_format_type row)"

text \<open>
  \<^verbatim>\<open>Database.add_to_cache\<close>: \<^verbatim>\<open>INSERT OR REPLACE\<close> removes every row that collides on
  \<^verbatim>\<open>UNIQUE(company_name, source, format_type)\<close> and inserts the new row under a fresh id
  with \<^verbatim>\<open>CURRENT_TIMESTAMP\<close>. A \<^verbatim>\<open>None\<close> in a \<^verbatim>\<open>NOT NULL\<close> column without default
  aborts the statement with \<^verbatim>\<open>sqlite3.IntegrityError\<close>, which the method catches: it
  returns \<^verbatim>\<open>False\<close> and the table is unchanged.
\<close>

definition add_to_cache :: "int \<Rightarrow> LogoResult \<Rightarrow> database \<Rightarrow> bool \<times> database" where
  "add_to_cache now logo_result db =
    (case (source logo_result, format_type logo_result) of
       (Some src, Some fmt) \<Rightarrow>
         (let k = (company_name logo_result, src, fmt);
              kept = filter (\<lambda>row. cache_key row \<noteq> k) (logo_cache db);
              new_id = Suc (logo_cache_seq db);
              row = \<lparr>c_id = new_id, c_company_name = company_name logo_result,
                     c_source = src, c_format_type = fmt,
                     c_image_data = image_data logo_result,
                     c_image_url = image_url logo_result,
                     c_width = width logo_result, c_height = height logo_result,
                     c_score = score logo_result, c_timestamp = now\<rparr>
          in (True, db\<lparr>logo_cache := kept @ [row], logo_cache_seq := new_id\<rparr>))
     | _ \<Rightarrow> (False, db))"

text \<open>
  The age test of \<^verbatim>\<open>get_from_cache\<close>:
  \<^verbatim>\<open>datetime(timestamp) > datetime('now', '-N days')\<close>.
\<close>

definition seconds_per_day :: int where
  "seconds_per_day = 86400"

definition fresh :: "int \<Rightarrow> nat \<Rightarrow> int \<Rightarrow> bool" where
  "fresh now max_age_days ts = (now - int max_age_days * seconds_per_day < ts)"

definition row_to_result :: "cache_row \<Rightarrow> LogoResult" where
  "row_to_result row =
     \<lparr>company_name = c_company_name row, image_data = c_image_data row,
      image_url = c_image_url row, source = Some (c_source row),
      format_type = Some (c_format_type row), width = c_width row,
      height = c_height row, file_path = None, score = c_score row,
      metadata = []\<rparr>"

text \<open>
  \<^verbatim>\<open>Database.get_from_cache\<close>: the fresh rows of the company, \<^verbatim>\<open>ORDER BY score DESC\<close>
  (rows of equal score in table order), each turned into a \<^verbatim>\<open>LogoResult\<close>.
\<close>

definition get_from_cache :: "int \<Rightarrow> database \<Rightarrow> string \<Rightarrow> nat \<Rightarrow> LogoResult list" where
  "get_from_cache now db company max_age_days =
     map row_to_result
       (sort_key (\<lambda>row. - c_score row)
          (filter (\<lambda>row. c_company_name row = company
                          \<and> fresh now max_age_days (c_timestamp row))
             (logo_cache db)))"

text \<open>
  \<^verbatim>\<open>Database.add_to_history\<close>: \<^verbatim>\<open>INSERT OR REPLACE\<close> on \<^verbatim>\<open>UNIQUE(company_name)\<close>.
\<close>

definition add_to_history :: "int \<Rightarrow> string \<Rightarrow> int \<Rightarrow> database \<Rightarrow> bool \<times> database" where
  "add_to_history now company results_count db =
     (let kept = filter (\<lambda>row. h_company_name row \<noteq> company) (search_history db);
          new_id = Suc (search_history_seq db);
          row = \<lparr>h_id = new_id, h_company_name = company, h_timestamp = now,
                 h_results_count = results_count\<rparr>
      in (True, db\<lparr>search_history := kept @ [row], search_history_seq := new_id\<rparr>))"

text \<open>
  \<^verbatim>\<open>Database.clear_cache\<close>: with \<^verbatim>\<open>max_age_days\<close> it deletes the rows with
  \<^verbatim>\<open>datetime(timestamp) < datetime('now', '-N days')\<close>, without it every row.
\<close>

definition clear_cache :: "int \<Rightarrow> nat option \<Rightarrow> database \<Rightarrow> bool \<times> database" where
  "clear_cache now max_age_days db =
     (case max_age_days of
        Some d \<Rightarrow>
          (True, db\<lparr>logo_cache :=
             filter (\<lambda>row. \<not> c_timestamp row < now - int d * seconds_per_day)
               (logo_cache db)\<rparr>)
      | None \<Rightarrow> (True, db\<lparr>logo_cache := []\<rparr>))"

subsection \<open>Scorer\<close>

text \<open>
  \<^verbatim>\<open>LogoSearchWorker.add_result\<close>, up to the emission of the signal: the score gains the
  source's \<^verbatim>\<open>base_quality\<close>, then 10 more for the format \<^verbatim>\<open>'svg'\<close>; the metadata
  gets the source name and the time of discovery (the clock's ISO string is an
  argument).
\<close>

definition add_result :: "source_desc \<Rightarrow> string \<Rightarrow> LogoResult \<Rightarrow> LogoResult" where
  "add_result src found_time result =
     (let r1 = result\<lparr>score := score result + base_quality src\<rparr>;
          r2 = (if format_type r1 = Some ''svg'' then r1\<lparr>score := score r1 + 10\<rparr> else r1)
      in r2\<lparr>metadata :=
            dict_set ''found_time'' found_time (dict_set ''source'' (name src) (metadata r2))\<rparr>)"

subsection \<open>Domain generator\<close>

text \<open>
  String primitives of Python on the ASCII range. A \<^typ>\<open>char\<close> is one byte; bytes
  from 128 on are left as they are by \<open>lower\<close> and count as word characters.
\<close>

datatype py_error = IndexError

text \<open>\<^verbatim>\<open>ord(c)\<close>.\<close>

definition ord :: "char \<Rightarrow> nat" where
  "ord c = of_char c"

definition lower_char :: "char \<Rightarrow> char" where
  "lower_char c = (if 65 \<le> ord c \<and> ord c \<le> 90 then char_of (ord c + 32) else c)"

definition lower :: "string \<Rightarrow> string" where
  "lower s = map lower_char s"

text \<open>\<^verbatim>\<open>str.isspace\<close> on ASCII: tab, LF, VT, FF, CR, the separators 28 to 31, and space.\<close>

definition is_space :: "char \<Rightarrow> bool" where
  "is_space c = ((9 \<le> ord c \<and> ord c \<le> 13) \<or> (28 \<le> ord c \<and> ord c \<le> 32))"

text \<open>\<^verbatim>\<open>\w\<close> of the \<^verbatim>\<open>re\<close> module: letters, digits and the underscore.\<close>

definition is_word :: "char \<Rightarrow> bool" where
  "is_word c =
     ((97 \<le> ord c \<and> ord c \<le> 122) \<or> (65 \<le> ord c \<and> ord c \<le> 90)
      \<or> (48 \<le> ord c \<and> ord c \<le> 57) \<or> ord c = 95 \<or> 128 \<le> ord c)"

definition endswith :: "string \<Rightarrow> string \<Rightarrow> bool" where
  "endswith s suffix =
     (length suffix \<le> length s \<and> drop (length s - length suffix) s = suffix)"

definition startswith :: "string \<Rightarrow> string \<Rightarrow> bool" where
  "startswith s pre = (take (length pre) s = pre)"

text \<open>\<^verbatim>\<open>sub in s\<close>.\<close>

fun contains :: "string \<Rightarrow> string \<Rightarrow> bool" where
  "contains [] sub = (sub = [])"
| "contains (c # cs) sub = (startswith (c # cs) sub \<or> contains cs sub)"

text \<open>\<^verbatim>\<open>s.split()\<close>: the maximal runs of non-whitespace characters.\<close>

function split_ws :: "string \<Rightarrow> string list" where
  "split_ws s =
     (let t = dropWhile is_space s
      in if t = [] then []
         else takeWhile (\<lambda>c. \<not> is_space c) t # split_ws (dropWhile (\<lambda>c. \<not> is_space c) t))"
  by pat_completeness auto
termination
proof (relation "measure length")
  show "wf (measure length)" by simp
next
  fix s t :: string
  assume t: "t = dropWhile is_space s" and ne: "t \<noteq> []"
  have "length (dropWhile (\<lambda>c. \<not> is_space c) t) < length t"
  proof (cases t)
    case Nil
    with ne show ?thesis by simp
  next
    case (Cons c cs)
    have "\<not> is_space (hd t)"
      using ne t hd_dropWhile [of is_space s] by simp
    with Cons have "dropWhile (\<lambda>c. \<not> is_space c) t = dropWhile (\<lambda>c. \<not> is_space c) cs"
      by simp
    moreover have "length (dropWhile (\<lambda>c. \<not> is_space c) cs) \<le> length cs"
      by (rule length_dropWhile_le)
    ultimately show ?thesis using Cons by simp
  qed
  moreover have "length t \<le> length s"
    unfolding t by (rule length_dropWhile_le)
  ultimately show "(dropWhile (\<lambda>c. \<not> is_space c) t, s) \<in> measure length"
    by simp
qed

declare split_ws.simps [simp del]

text \<open>\<^verbatim>\<open>sep.join(parts)\<close>.\<close>

fun join :: "string \<Rightarrow> string list \<Rightarrow> string" where
  "join sep [] = []"
| "join sep [p] = p"
| "join sep (p # q # ps) = p @ sep @ join sep (q # ps)"

text \<open>\<^verbatim>\<open>part[0]\<close> raises \<^verbatim>\<open>IndexError\<close> on the empty string.\<close>

definition first_char :: "string \<Rightarrow> py_error + char" where
  "first_char part = (case part of [] \<Rightarrow> Inl IndexError | c # _ \<Rightarrow> Inr c)"

text \<open>\<^verbatim>\<open>''.join(part[0] for part in parts)\<close>.\<close>

fun initials :: "string list \<Rightarrow> py_error + string" where
  "initials [] = Inr []"
| "initials (p # ps) =
     (case first_char p of
        Inl e \<Rightarrow> Inl e
      | Inr c \<Rightarrow> (case initials ps of Inl e \<Rightarrow> Inl e | Inr cs \<Rightarrow> Inr (c # cs)))"

definition legal_suffixes :: "string list" where
  "legal_suffixes = ['' inc'', '' corp'', '' llc'', '' ltd'', '' limited'', '' gmbh'',
     '' co'', '' company'', '' corporation'']"

text \<open>
  The loop over \<^verbatim>\<open>legal_suffixes\<close>: each suffix in turn is cut off if the name, as cut
  so far, ends with it.
\<close>

definition strip_suffix :: "string \<Rightarrow> string \<Rightarrow> string" where
  "strip_suffix clean_name suffix =
     (if endswith clean_name suffix
      then take (length clean_name - length suffix) clean_name else clean_name)"

definition strip_legal_suffixes :: "string \<Rightarrow> string" where
  "strip_legal_suffixes clean_name = foldl strip_suffix clean_name legal_suffixes"

text \<open>\<^verbatim>\<open>re.sub(r'[^\w\s]', '', clean_name)\<close>.\<close>

definition remove_special :: "string \<Rightarrow> string" where
  "remove_special s = filter (\<lambda>c. is_word c \<or> is_space c) s"

definition clean :: "string \<Rightarrow> string" where
  "clean company = remove_special (strip_legal_suffixes (lower company))"

text \<open>The loop that crosses every base name with the five suffixes.\<close>

definition add_tlds :: "string list \<Rightarrow> string list" where
  "add_tlds domains =
     concat (map (\<lambda>d. [d @ ''.com'', d @ ''.org'', d @ ''.io'', d @ ''.co'', d @ ''.net''])
       domains)"

text \<open>The \<^verbatim>\<open>if\<close>/\<^verbatim>\<open>elif\<close> chain of the well-known companies.\<close>

definition special_cases :: "string \<Rightarrow> string list" where
  "special_cases clean_name =
     (if contains clean_name ''google'' then [''google.com'']
      else if contains clean_name ''microsoft'' then [''microsoft.com'']
      else if contains clean_name ''amazon'' then [''amazon.com'']
      else if contains clean_name ''facebook'' \<or> contains clean_name ''meta''
        then [''facebook.com'', ''meta.com'']
      else if contains clean_name ''apple'' then [''apple.com'']
      else [])"

text \<open>
  The base names: the parts concatenated, the parts joined by hyphens and, for more
  than one part, the initials of all parts but the last followed by the last part,
  and the initials of all parts.
\<close>

definition base_names :: "string list \<Rightarrow> py_error + string list" where
  "base_names name_parts =
     (let domains = [join [] name_parts, join ''-'' name_parts]
      in if length name_parts > 1
         then (case initials (butlast name_parts) of
                 Inl e \<Rightarrow> Inl e
               | Inr a1 \<Rightarrow>
                   (case initials name_parts of
                      Inl e \<Rightarrow> Inl e
                    | Inr a2 \<Rightarrow> Inr (domains @ [a1 @ last name_parts] @ [a2])))
         else Inr domains)"

text \<open>
  \<^verbatim>\<open>LogoSearchManager.generate_company_domains\<close>. The method returns
  \<^verbatim>\<open>list(set(result))\<close>, a list in no specified order; the model returns the set.
\<close>

definition generate_company_domains :: "string \<Rightarrow> py_error + string set" where
  "generate_company_domains company =
     (let clean_name = clean company;
          name_parts = split_ws clean_name
      in case base_names name_parts of
           Inl e \<Rightarrow> Inl e
         | Inr domains \<Rightarrow>
             Inr (set (add_tlds domains @ [company] @ special_cases clean_name)))"

subsection \<open>Source adapters\<close>

text \<open>
  Progress messages. The source formats them as text; the model keeps what the text
  is built from.
\<close>

datatype message =
    Searching string
  | Not_implemented string
  | Error_searching string string
  | Found_in_cache nat
  | Note string

text \<open>The three signals of \<^verbatim>\<open>LogoSearchWorker\<close>.\<close>

datatype worker_signal =
    W_progress message
  | W_result LogoResult
  | W_complete string bool

text \<open>
  What one call of a search method does: it emits progress messages and hands results
  to \<^verbatim>\<open>self.add_result\<close>, in some order, and then either returns a truth value
  (\<^term>\<open>Inr\<close>) or raises an exception (\<^term>\<open>Inl\<close>, with the text of the exception).
\<close>

datatype emission = Emit_progress message | Emit_result LogoResult

type_synonym outcome = "emission list \<times> (string + bool)"

text \<open>
  The methods that talk to the network are given by their outcome in the run at hand:
  \<open>net\<close> maps the name of a method to what its network-dependent body does.
\<close>

type_synonym network = "string \<Rightarrow> outcome"

definition search_branddb :: outcome where
  "search_branddb = ([], Inr False)"

definition search_socialmedia :: outcome where
  "search_socialmedia = ([], Inr False)"

definition search_vectordb :: outcome where
  "search_vectordb = ([], Inr False)"

text \<open>
  \<^verbatim>\<open>search_googlesearch\<close> and \<^verbatim>\<open>search_bingsearch\<close> return \<^verbatim>\<open>False\<close> after a warning
  when a credential is missing or empty, before any request.
\<close>

definition search_googlesearch :: "settings \<Rightarrow> network \<Rightarrow> outcome" where
  "search_googlesearch st net =
     (let api_key = get_or (google_api_key st) []; cx = get_or (google_cx st) []
      in if api_key = [] \<or> cx = []
         then ([Emit_progress (Note ''Google Search API key or CX not configured'')], Inr False)
         else net ''search_googlesearch'')"

definition search_bingsearch :: "settings \<Rightarrow> network \<Rightarrow> outcome" where
  "search_bingsearch st net =
     (let api_key = get_or (bing_api_key st) []
      in if api_key = []
         then ([Emit_progress (Note ''Bing Search API key not configured'')], Inr False)
         else net ''search_bingsearch'')"

text \<open>
  \<^verbatim>\<open>hasattr(self, method_name) and callable(getattr(self, method_name))\<close> followed by
  the call: the search methods the class defines, by name; any other name has none.
\<close>

definition search_method :: "settings \<Rightarrow> network \<Rightarrow> string \<Rightarrow> outcome option" where
  "search_method st net method_name =
     (if method_name = ''search_simpleicons'' then Some (net method_name)
      else if method_name = ''search_brandfetch'' then Some (net method_name)
      else if method_name = ''search_clearbit'' then Some (net method_name)
      else if method_name = ''search_wikipedia'' then Some (net method_name)
      else if method_name = ''search_branddb'' then Some search_branddb
      else if method_name = ''search_companywebsite'' then Some (net method_name)
      else if method_name = ''search_socialmedia'' then Some search_socialmedia
      else if method_name = ''search_googlesearch'' then Some (search_googlesearch st net)
      else if method_name = ''search_bingsearch'' then Some (search_bingsearch st net)
      else if method_name = ''search_duckduckgo'' then Some (net method_name)
      else if method_name = ''search_vectordb'' then Some search_vectordb
      else None)"

definition method_name_of :: "string \<Rightarrow> string" where
  "method_name_of source_name = ''search_'' @ lower source_name"

text \<open>An emission of a search method as the signal the worker sends for it.\<close>

fun signal_of :: "source_desc \<Rightarrow> string \<Rightarrow> emission \<Rightarrow> worker_signal" where
  "signal_of src found_time (Emit_progress msg) = W_progress msg"
| "signal_of src found_time (Emit_result r) = W_result (add_result src found_time r)"

text \<open>
  \<^verbatim>\<open>LogoSearchWorker.run\<close>. A block of statements is the signals it emits and, if it
  ends by an exception, the exception (\<^term>\<open>Some\<close>). \<open>run_try\<close> is the body of the
  \<^verbatim>\<open>try\<close>, \<open>run_except\<close> the handler \<^verbatim>\<open>except Exception as e\<close> applied to it, and
  \<open>run\<close> the whole method.
\<close>

type_synonym block = "worker_signal list \<times> string option"

definition run_try :: "source_desc \<Rightarrow> settings \<Rightarrow> network \<Rightarrow> string \<Rightarrow> block" where
  "run_try src st net found_time =
     (let source_name = name src
      in case search_method st net (method_name_of source_name) of
           Some (ems, Inr success) \<Rightarrow>
             (map (signal_of src found_time) ems @ [W_complete source_name success], None)
         | Some (ems, Inl e) \<Rightarrow> (map (signal_of src found_time) ems, Some e)
         | None \<Rightarrow>
             ([W_progress (Not_implemented source_name), W_complete source_name False], None))"

definition run_except :: "source_desc \<Rightarrow> block \<Rightarrow> block" where
  "run_except src b =
     (case b of
        (sigs, None) \<Rightarrow> (sigs, None)
      | (sigs, Some e) \<Rightarrow>
          (sigs @ [W_progress (Error_searching (name src) e), W_complete (name src) False],
           None))"

definition run :: "source_desc \<Rightarrow> settings \<Rightarrow> network \<Rightarrow> string \<Rightarrow> block" where
  "run src st net found_time =
     (let b = run_except src (run_try src st net found_time)
      in (W_progress (Searching (name src)) # fst b, snd b))"

fun is_complete :: "worker_signal \<Rightarrow> bool" where
  "is_complete (W_complete n ok) = True"
| "is_complete s = False"

fun is_result :: "worker_signal \<Rightarrow> bool" where
  "is_result (W_result r) = True"
| "is_result s = False"

fun emitted_results :: "emission list \<Rightarrow> LogoResult list" where
  "emitted_results [] = []"
| "emitted_results (Emit_result r # ems) = r # emitted_results ems"
| "emitted_results (Emit_progress msg # ems) = emitted_results ems"

text \<open>
  A stub placeholder: whatever the settings and the network, the search returns
  \<^verbatim>\<open>False\<close> and emits nothing.
\<close>

definition stub_placeholder :: "source_desc \<Rightarrow> bool" where
  "stub_placeholder src =
     (\<forall>st net. search_method st net (method_name_of (name src)) = Some ([], Inr False))"

subsection \<open>Search orchestrator\<close>

text \<open>
  A worker thread as the manager sees it: \<^verbatim>\<open>isRunning()\<close> holds from \<^verbatim>\<open>start()\<close>
  until the thread ends; \<^verbatim>\<open>terminate()\<close> ends it from outside. A worker is
  \<open>Finished\<close> once its completion signal has been handled.
\<close>

datatype status = Running | Terminated | Finished

record worker =
  w_source :: source_desc
  w_status :: status

text \<open>The three signals of \<^verbatim>\<open>LogoSearchManager\<close>.\<close>

datatype manager_signal =
    Progress message
  | Result LogoResult
  | Complete bool "LogoResult list"

text \<open>
  The attributes of \<^verbatim>\<open>LogoSearchManager\<close>, the database it holds a reference to, and
  the signals it has emitted so far, oldest first.
\<close>

record manager =
  m_company_name :: string
  m_settings :: settings
  m_db :: database
  results :: "LogoResult list"
  workers :: "worker list"
  completed_sources :: "string set"
  active_workers :: int
  max_concurrent :: int
  search_queue :: "source_desc list"
  domains :: "string set"
  emitted :: "manager_signal list"

text \<open>\<^verbatim>\<open>LogoSearchManager.__init__\<close>.\<close>

definition LogoSearchManager :: "string \<Rightarrow> settings \<Rightarrow> database \<Rightarrow> py_error + manager" where
  "LogoSearchManager company st db =
     (case generate_company_domains company of
        Inl e \<Rightarrow> Inl e
      | Inr ds \<Rightarrow>
          Inr \<lparr>m_company_name = company, m_settings = st, m_db = db, results = [],
               workers = [], completed_sources = {}, active_workers = 0,
               max_concurrent = get_or (concurrent_searches st) 3, search_queue = [],
               domains = ds, emitted = []\<rparr>)"

definition emit :: "manager_signal \<Rightarrow> manager \<Rightarrow> manager" where
  "emit sig m = m\<lparr>emitted := emitted m @ [sig]\<rparr>"

text \<open>\<^verbatim>\<open>LogoSearchManager.start_worker\<close>.\<close>

definition start_worker :: "source_desc \<Rightarrow> manager \<Rightarrow> manager" where
  "start_worker src m =
     m\<lparr>workers := workers m @ [\<lparr>w_source = src, w_status = Running\<rparr>],
       active_workers := active_workers m + 1\<rparr>"

text \<open>
  \<^verbatim>\<open>LogoSearchManager.start_workers\<close>: while the queue is not empty and
  \<^verbatim>\<open>active_workers < max_concurrent\<close>, take the head of the queue and start it.
\<close>

function start_workers :: "manager \<Rightarrow> manager" where
  "start_workers m =
     (case search_queue m of
        [] \<Rightarrow> m
      | src # rest \<Rightarrow>
          if active_workers m < max_concurrent m
          then start_workers (start_worker src (m\<lparr>search_queue := rest\<rparr>))
          else m)"
  by pat_completeness auto
termination
  by (relation "measure (\<lambda>m. length (search_queue m))") (auto simp: start_worker_def)

declare start_workers.simps [simp del]

text \<open>The loop of \<^verbatim>\<open>start_search\<close> over the cached results.\<close>

definition take_cached :: "manager \<Rightarrow> LogoResult \<Rightarrow> manager" where
  "take_cached m r = emit (Result r) (m\<lparr>results := results m @ [r]\<rparr>)"

definition enough :: "settings \<Rightarrow> nat \<Rightarrow> bool" where
  "enough st n = (int n \<ge> get_or (max_results st) 10 \<and> \<not> get_or (search_all_sources st) True)"

text \<open>
  \<^verbatim>\<open>LogoSearchManager.start_search\<close>. The registry \<^verbatim>\<open>LOGO_SOURCES\<close> the method reads is
  the argument \<open>srcs\<close>.
\<close>

definition start_search :: "int \<Rightarrow> source_desc list \<Rightarrow> manager \<Rightarrow> manager" where
  "start_search now srcs m =
     (let cache_results =
            get_from_cache now (m_db m) (m_company_name m)
              (get_or (cache_expiry_days (m_settings m)) 30);
          m1 = (if cache_results \<noteq> []
                then foldl take_cached
                       (emit (Progress (Found_in_cache (length cache_results))) m)
                       cache_results
                else m)
      in if cache_results \<noteq> [] \<and> enough (m_settings m) (length cache_results)
         then emit (Complete True (results m1)) m1
         else start_workers (m1\<lparr>search_queue := search_queue m1 @ filter enabled srcs\<rparr>))"

definition handle_progress_update :: "message \<Rightarrow> manager \<Rightarrow> manager" where
  "handle_progress_update msg m = emit (Progress msg) m"

definition terminate :: "worker \<Rightarrow> worker" where
  "terminate w = (if w_status w = Running then w\<lparr>w_status := Terminated\<rparr> else w)"

text \<open>\<^verbatim>\<open>LogoSearchManager.handle_search_result\<close>.\<close>

definition handle_search_result :: "int \<Rightarrow> LogoResult \<Rightarrow> manager \<Rightarrow> manager" where
  "handle_search_result now result m =
     (let m1 = m\<lparr>results := results m @ [result]\<rparr>;
          m2 = m1\<lparr>m_db := snd (add_to_cache now result (m_db m1))\<rparr>;
          m3 = emit (Result result) m2
      in if enough (m_settings m3) (length (results m3))
         then emit (Complete True (results m3)) (m3\<lparr>workers := map terminate (workers m3)\<rparr>)
         else m3)"

text \<open>\<^verbatim>\<open>LogoSearchManager.handle_search_complete\<close>.\<close>

definition handle_search_complete :: "int \<Rightarrow> string \<Rightarrow> bool \<Rightarrow> manager \<Rightarrow> manager" where
  "handle_search_complete now source_name success m =
     (let m1 = m\<lparr>completed_sources := insert source_name (completed_sources m),
                 active_workers := active_workers m - 1\<rparr>;
          m2 = start_workers m1
      in if active_workers m2 = 0 \<and> search_queue m2 = []
         then emit (Complete (length (results m2) > 0) (results m2))
                (m2\<lparr>m_db := snd (add_to_history now (m_company_name m2)
                                    (int (length (results m2))) (m_db m2))\<rparr>)
         else m2)"

text \<open>
  The signals of the workers reach the manager one at a time, in any interleaving. An
  event names the worker by its position in \<^verbatim>\<open>self.workers\<close>. A worker sends signals
  until its completion signal has been handled; a signal of a terminated worker that
  was already under way still arrives. \<open>deliver\<close> is \<^term>\<open>None\<close> for an event that
  no worker can have sent.
\<close>

datatype event =
    Ev_progress nat message
  | Ev_result nat LogoResult
  | Ev_complete nat bool

definition can_send :: "manager \<Rightarrow> nat \<Rightarrow> bool" where
  "can_send m i = (i < length (workers m) \<and> w_status (workers m ! i) \<noteq> Finished)"

definition finish :: "nat \<Rightarrow> manager \<Rightarrow> manager" where
  "finish i m = m\<lparr>workers := (workers m)[i := (workers m ! i)\<lparr>w_status := Finished\<rparr>]\<rparr>"

fun deliver :: "int \<Rightarrow> event \<Rightarrow> manager \<Rightarrow> manager option" where
  "deliver now (Ev_progress i msg) m =
     (if can_send m i then Some (handle_progress_update msg m) else None)"
| "deliver now (Ev_result i r) m =
     (if can_send m i then Some (handle_search_result now r m) else None)"
| "deliver now (Ev_complete i ok) m =
     (if can_send m i
      then Some (handle_search_complete now (name (w_source (workers m ! i))) ok (finish i m))
      else None)"

text \<open>A run: events with the time of their delivery, handled in order.\<close>

fun run_events :: "(int \<times> event) list \<Rightarrow> manager \<Rightarrow> manager option" where
  "run_events [] m = Some m"
| "run_events ((now, ev) # evs) m =
     (case deliver now ev m of None \<Rightarrow> None | Some m' \<Rightarrow> run_events evs m')"

definition running_workers :: "manager \<Rightarrow> nat" where
  "running_workers m = length (filter (\<lambda>w. w_status w = Running) (workers m))"

definition unfinished_workers :: "manager \<Rightarrow> nat" where
  "unfinished_workers m = length (filter (\<lambda>w. w_status w \<noteq> Finished) (workers m))"

fun is_Complete :: "manager_signal \<Rightarrow> bool" where
  "is_Complete (Complete ok rs) = True"
| "is_Complete s = False"

subsection \<open>Notions the properties are stated with\<close>


text \<open>A result as the Clearbit adapter builds it, for given image bytes.\<close>

definition clearbit_png :: "string \<Rightarrow> string \<Rightarrow> LogoResult" where
  "clearbit_png company bytes =
     \<lparr>company_name = company, image_data = Some bytes, image_url = None,
      source = Some ''Clearbit'', format_type = Some ''png'', width = None, height = None,
      file_path = None, score = 5, metadata = []\<rparr>"

text \<open>
  Settings dictionaries: one without any of the keys, one that stops after the first
  result with two concurrent searches, one with the search credentials set.
\<close>

definition no_settings :: settings where
  "no_settings = \<lparr>max_results = None, search_all_sources = None, concurrent_searches = None,
     cache_expiry_days = None, google_api_key = None, google_cx = None, bing_api_key = None\<rparr>"

definition early_stop_settings :: settings where
  "early_stop_settings = no_settings\<lparr>max_results := Some 1, search_all_sources := Some False,
     concurrent_searches := Some 2\<rparr>"

definition keyed_settings :: settings where
  "keyed_settings = no_settings\<lparr>google_api_key := Some ''key'', google_cx := Some ''cx'',
     bing_api_key := Some ''key''\<rparr>"

text \<open>
  Networks: every request fails after one result; only Clearbit fails; every search
  succeeds without a result.
\<close>

definition failing_network :: network where
  "failing_network = (\<lambda>method. ([Emit_result (clearbit_png ''Acme'' ''img'')], Inl ''timed out''))"

definition clearbit_down :: network where
  "clearbit_down =
     (\<lambda>method. if method = ''search_clearbit''
        then ([Emit_result (clearbit_png ''Acme'' ''img'')], Inl ''timed out'')
        else ([], Inr True))"

definition finding_network :: network where
  "finding_network = (\<lambda>method. ([], Inr True))"

text \<open>The manager for the company \<^verbatim>\<open>Acme\<close> as \<^verbatim>\<open>__init__\<close> leaves it.\<close>

definition acme_manager :: "settings \<Rightarrow> database \<Rightarrow> manager" where
  "acme_manager st db =
     \<lparr>m_company_name = ''Acme'', m_settings = st, m_db = db, results = [], workers = [],
      completed_sources = {}, active_workers = 0,
      max_concurrent = get_or (concurrent_searches st) 3, search_queue = [],
      domains = {''acme.com'', ''acme.org'', ''acme.io'', ''acme.co'', ''acme.net'', ''Acme''},
      emitted = []\<rparr>"

text \<open>A cache that holds one fresh Clearbit logo of Acme, written at time 100.\<close>

definition acme_cache :: database where
  "acme_cache = snd (add_to_cache 100 (clearbit_png ''Acme'' ''img'') empty_db)"

text \<open>The registry with every source switched off.\<close>

definition all_disabled :: "source_desc list" where
  "all_disabled = map (\<lambda>s. s\<lparr>enabled := False\<rparr>) LOGO_SOURCES"

text \<open>
  The bookkeeping of the manager: \<^verbatim>\<open>active_workers\<close> counts the workers whose
  completion has not been handled yet, and is within \<^verbatim>\<open>max_concurrent\<close>.
\<close>

definition counted :: "manager \<Rightarrow> bool" where
  "counted m = (active_workers m = int (unfinished_workers m)
                \<and> active_workers m \<le> max_concurrent m)"

section \<open>Properties\<close>

subsection \<open>Scorer\<close>

text \<open>
  C6. The scorer adds to the score the result arrives with: the final score is the
  initial score plus the source's base quality, plus 10 exactly when the format is
  \<^verbatim>\<open>svg\<close>. A result with initial score 10 and format \<^verbatim>\<open>svg\<close> from a source of base
  quality 80 ends with score 100.
\<close>

theorem add_result_score:
  "score (add_result src found_time r)
     = score r + base_quality src + (if format_type r = Some ''svg'' then 10 else 0)
   \<and> score (add_result (mk_source ''SimpleIcons'' 5 80 True) found_time
               (r\<lparr>format_type := Some ''svg'', score := 10\<rparr>)) = 100"
  by (simp add: add_result_def mk_source_def Let_def)

subsection \<open>Cache store\<close>




text \<open>
  C9. Clearing the cache, with or without a maximal age, leaves the tables
  \<^verbatim>\<open>search_history\<close> and \<^verbatim>\<open>favorites\<close> as they were.
\<close>

theorem clear_cache_frame:
  "search_history (snd (clear_cache now max_age_days db)) = search_history db
   \<and> favorites (snd (clear_cache now max_age_days db)) = favorites db
   \<and> search_history_seq (snd (clear_cache now max_age_days db)) = search_history_seq db
   \<and> favorites_seq (snd (clear_cache now max_age_days db)) = favorites_seq db"
  by (simp add: clear_cache_def split: option.split)

subsection \<open>Domain generator\<close>







text \<open>
  C7. For \<^verbatim>\<open>Acme Inc\<close> the generator returns the base name \<^verbatim>\<open>acme\<close> under the five
  suffixes and the name as given, and nothing else: the suffix \<^verbatim>\<open>inc\<close> is cut off
  before the base names are built, so no base name contains it. For
  \<^verbatim>\<open>Google Cloud\<close> it returns the four base names under the five suffixes, the name as
  given, and \<^verbatim>\<open>google.com\<close> from the table of well-known companies.
\<close>

theorem generate_company_domains_examples:
  "generate_company_domains ''Acme Inc'' =
     Inr {''acme.com'', ''acme.org'', ''acme.io'', ''acme.co'', ''acme.net'', ''Acme Inc''}
   \<and> generate_company_domains ''Google Cloud'' =
     Inr {''googlecloud.com'', ''googlecloud.org'', ''googlecloud.io'', ''googlecloud.co'',
          ''googlecloud.net'', ''google-cloud.com'', ''google-cloud.org'', ''google-cloud.io'',
          ''google-cloud.co'', ''google-cloud.net'', ''gcloud.com'', ''gcloud.org'',
          ''gcloud.io'', ''gcloud.co'', ''gcloud.net'', ''gc.com'', ''gc.org'', ''gc.io'',
          ''gc.co'', ''gc.net'', ''Google Cloud'', ''google.com''}"
  by code_simp

subsection \<open>Source adapters\<close>

lemma signals_no_complete: "filter is_complete (map (signal_of src t) ems) = []"
proof (induction ems)
  case Nil
  show ?case by simp
next
  case (Cons em ems)
  then show ?case by (cases em) simp_all
qed

lemma signals_results:
  "filter is_result (map (signal_of src t) ems)
     = map (\<lambda>r. W_result (add_result src t r)) (emitted_results ems)"
proof (induction ems)
  case Nil
  show ?case by simp
next
  case (Cons em ems)
  then show ?case by (cases em) simp_all
qed

lemma run_cases:
  "search_method st net (method_name_of (name src)) = None \<Longrightarrow>
     run src st net t =
       ([W_progress (Searching (name src)), W_progress (Not_implemented (name src)),
         W_complete (name src) False], None)"
  "search_method st net (method_name_of (name src)) = Some (ems, Inr ok) \<Longrightarrow>
     run src st net t =
       (W_progress (Searching (name src)) # map (signal_of src t) ems
          @ [W_complete (name src) ok], None)"
  "search_method st net (method_name_of (name src)) = Some (ems, Inl e) \<Longrightarrow>
     run src st net t =
       (W_progress (Searching (name src)) # map (signal_of src t) ems
          @ [W_progress (Error_searching (name src) e), W_complete (name src) False], None)"
  by (simp_all add: run_def run_except_def run_try_def Let_def)

text \<open>
  C4. No exception leaves \<^verbatim>\<open>run\<close>: whatever the search method does, the run ends
  normally, with exactly one completion signal, sent last. When the search method
  raises, that signal reports failure and the only results of the run are those the
  method had handed over before it raised. A run depends on the network only through
  its own method, so what happens in another adapter does not change it.
\<close>

theorem run_never_raises:
  "snd (run src st net t) = None
   \<and> length (filter is_complete (fst (run src st net t))) = 1
   \<and> (\<exists>ok. last (fst (run src st net t)) = W_complete (name src) ok)
   \<and> (search_method st net (method_name_of (name src)) = Some (ems, Inl e) \<longrightarrow>
        last (fst (run src st net t)) = W_complete (name src) False
        \<and> filter is_result (fst (run src st net t))
            = map (\<lambda>r. W_result (add_result src t r)) (emitted_results ems))
   \<and> (net' (method_name_of (name src)) = net (method_name_of (name src)) \<longrightarrow>
        run src st net' t = run src st net t)"
proof -
  have main: "snd (run src st net t) = None
     \<and> length (filter is_complete (fst (run src st net t))) = 1
     \<and> (\<exists>ok. last (fst (run src st net t)) = W_complete (name src) ok)"
  proof (cases "search_method st net (method_name_of (name src))")
    case None
    show ?thesis unfolding run_cases(1) [OF None] by auto
  next
    case (Some out)
    obtain ems' ret where out: "out = (ems', ret)" by (cases out)
    show ?thesis
    proof (cases ret)
      case (Inl e')
      with Some out
      have "search_method st net (method_name_of (name src)) = Some (ems', Inl e')" by simp
      from run_cases(3) [OF this] show ?thesis
        by (auto simp: signals_no_complete)
    next
      case (Inr ok)
      with Some out
      have "search_method st net (method_name_of (name src)) = Some (ems', Inr ok)" by simp
      from run_cases(2) [OF this] show ?thesis
        by (auto simp: signals_no_complete)
    qed
  qed
  have raised: "last (fst (run src st net t)) = W_complete (name src) False
        \<and> filter is_result (fst (run src st net t))
            = map (\<lambda>r. W_result (add_result src t r)) (emitted_results ems)"
    if "search_method st net (method_name_of (name src)) = Some (ems, Inl e)"
    unfolding run_cases(3) [OF that] by (simp add: signals_results)
  have sibling: "run src st net' t = run src st net t"
    if "net' (method_name_of (name src)) = net (method_name_of (name src))"
  proof -
    from that have "search_method st net' (method_name_of (name src))
        = search_method st net (method_name_of (name src))"
      by (auto simp: search_method_def search_googlesearch_def search_bingsearch_def Let_def)
    then show ?thesis
      by (simp add: run_def run_try_def)
  qed
  from main raised sibling show ?thesis by blast
qed

lemma method_names:
  "method_name_of ''SimpleIcons'' = ''search_simpleicons''"
  "method_name_of ''Brandfetch'' = ''search_brandfetch''"
  "method_name_of ''Clearbit'' = ''search_clearbit''"
  "method_name_of ''Wikipedia'' = ''search_wikipedia''"
  "method_name_of ''BrandDB'' = ''search_branddb''"
  "method_name_of ''CompanyWebsite'' = ''search_companywebsite''"
  "method_name_of ''SocialMedia'' = ''search_socialmedia''"
  "method_name_of ''GoogleSearch'' = ''search_googlesearch''"
  "method_name_of ''BingSearch'' = ''search_bingsearch''"
  "method_name_of ''DuckDuckGo'' = ''search_duckduckgo''"
  "method_name_of ''VectorDB'' = ''search_vectordb''"
  by code_simp+

theorem run_never_raises_witness:
  "search_method keyed_settings clearbit_down
       (method_name_of (name (mk_source ''Clearbit'' 8 75 True)))
     = Some ([Emit_result (clearbit_png ''Acme'' ''img'')], Inl ''timed out'')
   \<and> failing_network (method_name_of (name (mk_source ''Clearbit'' 8 75 True)))
       = clearbit_down (method_name_of (name (mk_source ''Clearbit'' 8 75 True)))
   \<and> run (mk_source ''Clearbit'' 8 75 True) keyed_settings clearbit_down ''12:00''
       = ([W_progress (Searching ''Clearbit''),
           W_result (add_result (mk_source ''Clearbit'' 8 75 True) ''12:00''
                       (clearbit_png ''Acme'' ''img'')),
           W_progress (Error_searching ''Clearbit'' ''timed out''),
           W_complete ''Clearbit'' False], None)
   \<and> run (mk_source ''Clearbit'' 8 75 True) keyed_settings failing_network ''12:00''
       = run (mk_source ''Clearbit'' 8 75 True) keyed_settings clearbit_down ''12:00''"
proof -
  have n: "name (mk_source ''Clearbit'' 8 75 True) = ''Clearbit''"
    by (simp add: mk_source_def)
  have h: "search_method keyed_settings clearbit_down
             (method_name_of (name (mk_source ''Clearbit'' 8 75 True)))
           = Some ([Emit_result (clearbit_png ''Acme'' ''img'')], Inl ''timed out'')"
    by (simp add: n method_names search_method_def clearbit_down_def)
  have a: "failing_network (method_name_of (name (mk_source ''Clearbit'' 8 75 True)))
       = clearbit_down (method_name_of (name (mk_source ''Clearbit'' 8 75 True)))"
    by (simp add: n method_names failing_network_def clearbit_down_def)
  have r: "run (mk_source ''Clearbit'' 8 75 True) keyed_settings clearbit_down ''12:00''
       = ([W_progress (Searching ''Clearbit''),
           W_result (add_result (mk_source ''Clearbit'' 8 75 True) ''12:00''
                       (clearbit_png ''Acme'' ''img'')),
           W_progress (Error_searching ''Clearbit'' ''timed out''),
           W_complete ''Clearbit'' False], None)"
    unfolding run_cases(3) [OF h] by (simp add: n)
  from run_never_raises [of "mk_source ''Clearbit'' 8 75 True" keyed_settings clearbit_down
      "''12:00''" "[Emit_result (clearbit_png ''Acme'' ''img'')]" "''timed out''"
      failing_network] h a r
  show ?thesis by simp
qed

lemma search_method_registered:
  "search_method st net ''search_simpleicons'' = Some (net ''search_simpleicons'')"
  "search_method st net ''search_brandfetch'' = Some (net ''search_brandfetch'')"
  "search_method st net ''search_clearbit'' = Some (net ''search_clearbit'')"
  "search_method st net ''search_wikipedia'' = Some (net ''search_wikipedia'')"
  "search_method st net ''search_branddb'' = Some ([], Inr False)"
  "search_method st net ''search_companywebsite'' = Some (net ''search_companywebsite'')"
  "search_method st net ''search_socialmedia'' = Some ([], Inr False)"
  "search_method st net ''search_googlesearch'' = Some (search_googlesearch st net)"
  "search_method st net ''search_bingsearch'' = Some (search_bingsearch st net)"
  "search_method st net ''search_duckduckgo'' = Some (net ''search_duckduckgo'')"
  "search_method st net ''search_vectordb'' = Some ([], Inr False)"
  by (simp_all add: search_method_def search_branddb_def search_socialmedia_def
      search_vectordb_def)

lemma stubs:
  "stub_placeholder (mk_source ''BrandDB'' p q e)"
  "stub_placeholder (mk_source ''SocialMedia'' p q e)"
  "stub_placeholder (mk_source ''VectorDB'' p q e)"
  by (simp_all add: stub_placeholder_def mk_source_def method_names search_method_registered)

lemma not_stub_by_example:
  "search_method keyed_settings finding_network (method_name_of (name src)) = Some ([], Inr True)
     \<Longrightarrow> \<not> stub_placeholder src"
proof
  assume "stub_placeholder src"
  then have "search_method keyed_settings finding_network (method_name_of (name src))
      = Some ([], Inr False)"
    by (simp add: stub_placeholder_def)
  moreover assume "search_method keyed_settings finding_network (method_name_of (name src))
      = Some ([], Inr True)"
  ultimately show False by simp
qed

lemma not_stubs:
  "\<not> stub_placeholder (mk_source ''SimpleIcons'' p q e)"
  "\<not> stub_placeholder (mk_source ''Brandfetch'' p q e)"
  "\<not> stub_placeholder (mk_source ''Clearbit'' p q e)"
  "\<not> stub_placeholder (mk_source ''Wikipedia'' p q e)"
  "\<not> stub_placeholder (mk_source ''CompanyWebsite'' p q e)"
  "\<not> stub_placeholder (mk_source ''GoogleSearch'' p q e)"
  "\<not> stub_placeholder (mk_source ''BingSearch'' p q e)"
  "\<not> stub_placeholder (mk_source ''DuckDuckGo'' p q e)"
  by (rule not_stub_by_example,
      simp add: mk_source_def method_names search_method_registered finding_network_def
        search_googlesearch_def search_bingsearch_def keyed_settings_def get_or_def)+

lemma stub_sources:
  "filter stub_placeholder LOGO_SOURCES =
     [mk_source ''BrandDB'' 6 70 True, mk_source ''SocialMedia'' 4 75 True,
      mk_source ''VectorDB'' 5 80 True]"
  by (simp add: LOGO_SOURCES_def stubs not_stubs)

text \<open>
  C8, as stated, fails: the registered sources whose search is a stub placeholder are
  not two.
\<close>

theorem two_stub_placeholders_counterexample:
  "length (filter stub_placeholder LOGO_SOURCES) \<noteq> 2"
  by (simp add: stub_sources)

text \<open>
  C8, amended. Exactly three of the registered sources are stub placeholders: BrandDB,
  SocialMedia and VectorDB. The run of a stub placeholder sends its opening progress
  message and a completion signal that reports failure, and no result.
\<close>

theorem three_stub_placeholders:
  "map name (filter stub_placeholder LOGO_SOURCES) = [''BrandDB'', ''SocialMedia'', ''VectorDB'']
   \<and> (stub_placeholder src \<longrightarrow>
        run src st net t = ([W_progress (Searching (name src)), W_complete (name src) False], None))"
proof -
  have "run src st net t = ([W_progress (Searching (name src)), W_complete (name src) False], None)"
    if "stub_placeholder src"
  proof -
    from that have "search_method st net (method_name_of (name src)) = Some ([], Inr False)"
      by (simp add: stub_placeholder_def)
    from run_cases(2) [OF this] show ?thesis by simp
  qed
  then show ?thesis by (simp add: stub_sources mk_source_def)
qed

theorem three_stub_placeholders_witness:
  "stub_placeholder (mk_source ''BrandDB'' 6 70 True)
   \<and> run (mk_source ''BrandDB'' 6 70 True) keyed_settings finding_network ''12:00''
       = ([W_progress (Searching ''BrandDB''), W_complete ''BrandDB'' False], None)"
  using three_stub_placeholders
    [of "mk_source ''BrandDB'' 6 70 True" keyed_settings finding_network "''12:00''"]
    stubs(1) [of 6 70 True]
  by (simp add: mk_source_def)

subsection \<open>Search orchestrator\<close>

lemma emit_fields [simp]:
  "workers (emit sig m) = workers m" "active_workers (emit sig m) = active_workers m"
  "max_concurrent (emit sig m) = max_concurrent m" "search_queue (emit sig m) = search_queue m"
  "m_settings (emit sig m) = m_settings m" "m_db (emit sig m) = m_db m"
  "results (emit sig m) = results m"
  by (simp_all add: emit_def)

lemma counted_cong:
  "workers m' = workers m \<Longrightarrow> active_workers m' = active_workers m \<Longrightarrow>
   max_concurrent m' = max_concurrent m \<Longrightarrow> counted m' = counted m"
  by (simp add: counted_def unfinished_workers_def)

lemma start_workers_max [simp]: "max_concurrent (start_workers m) = max_concurrent m"
proof (induction m rule: start_workers.induct)
  case (1 m)
  show ?case
  proof (cases "search_queue m")
    case Nil
    then show ?thesis by (simp add: start_workers.simps [of m])
  next
    case (Cons src rest)
    show ?thesis
    proof (cases "active_workers m < max_concurrent m")
      case True
      with Cons "1.IH" [OF Cons True] show ?thesis
        by (simp add: start_workers.simps [of m] start_worker_def)
    next
      case False
      with Cons show ?thesis by (simp add: start_workers.simps [of m])
    qed
  qed
qed

lemma start_workers_counted: "counted m \<Longrightarrow> counted (start_workers m)"
proof (induction m rule: start_workers.induct)
  case (1 m)
  show ?case
  proof (cases "search_queue m")
    case Nil
    with "1.prems" show ?thesis by (simp add: start_workers.simps [of m])
  next
    case (Cons src rest)
    show ?thesis
    proof (cases "active_workers m < max_concurrent m")
      case True
      have "counted (start_worker src (m\<lparr>search_queue := rest\<rparr>))"
        using "1.prems" True
        by (simp add: counted_def start_worker_def unfinished_workers_def)
      from "1.IH" [OF Cons True this] Cons True show ?thesis
        by (simp add: start_workers.simps [of m])
    next
      case False
      with Cons "1.prems" show ?thesis by (simp add: start_workers.simps [of m])
    qed
  qed
qed

lemma foldl_take_cached_fields [simp]:
  "workers (foldl take_cached m rs) = workers m"
  "active_workers (foldl take_cached m rs) = active_workers m"
  "max_concurrent (foldl take_cached m rs) = max_concurrent m"
  "search_queue (foldl take_cached m rs) = search_queue m"
  by (induction rs arbitrary: m) (simp_all add: take_cached_def)

lemma start_search_counted:
  assumes "counted m"
  shows "counted (start_search now srcs m)"
proof -
  let ?cache = "get_from_cache now (m_db m) (m_company_name m)
                  (get_or (cache_expiry_days (m_settings m)) 30)"
  let ?m1 = "if ?cache \<noteq> []
             then foldl take_cached (emit (Progress (Found_in_cache (length ?cache))) m) ?cache
             else m"
  have m1: "counted ?m1"
    using assms counted_cong [of ?m1 m] by simp
  have a: "counted (emit (Complete True (results ?m1)) ?m1)"
    using m1 counted_cong [of "emit (Complete True (results ?m1)) ?m1" ?m1] by simp
  have "counted (?m1\<lparr>search_queue := search_queue ?m1 @ filter enabled srcs\<rparr>)"
    using m1 counted_cong [of "?m1\<lparr>search_queue := search_queue ?m1 @ filter enabled srcs\<rparr>" ?m1]
    by simp
  then have b: "counted (start_workers (?m1\<lparr>search_queue := search_queue ?m1 @ filter enabled srcs\<rparr>))"
    by (rule start_workers_counted)
  show ?thesis
    unfolding start_search_def Let_def using a b by (simp only: if_split) simp
qed

lemma terminate_unfinished:
  "filter (\<lambda>w. w_status w \<noteq> Finished) (map terminate ws)
     = map terminate (filter (\<lambda>w. w_status w \<noteq> Finished) ws)"
  by (induction ws) (simp_all add: terminate_def)

lemma handle_search_result_counted:
  assumes "counted m"
  shows "counted (handle_search_result now r m)"
  using assms
  by (simp add: handle_search_result_def Let_def counted_def unfinished_workers_def
      terminate_unfinished)

lemma handle_progress_update_counted: "counted m \<Longrightarrow> counted (handle_progress_update msg m)"
  by (simp add: handle_progress_update_def counted_def unfinished_workers_def)

lemma filter_update_drops:
  "i < length xs \<Longrightarrow> P (xs ! i) \<Longrightarrow> \<not> P y \<Longrightarrow>
     Suc (length (filter P (xs[i := y]))) = length (filter P xs)"
proof (induction xs arbitrary: i)
  case Nil
  then show ?case by simp
next
  case (Cons x xs)
  then show ?case by (cases i) simp_all
qed

lemma finish_unfinished:
  assumes "can_send m i"
  shows "int (unfinished_workers (finish i m)) = int (unfinished_workers m) - 1"
proof -
  from assms have "i < length (workers m)" and "w_status (workers m ! i) \<noteq> Finished"
    by (simp_all add: can_send_def)
  from filter_update_drops [of i "workers m" "\<lambda>w. w_status w \<noteq> Finished"
      "(workers m ! i)\<lparr>w_status := Finished\<rparr>", OF this]
  show ?thesis by (simp add: unfinished_workers_def finish_def)
qed

lemma handle_search_complete_counted:
  assumes "counted m" and "can_send m i"
  shows "counted (handle_search_complete now n ok (finish i m))"
proof -
  let ?m1 = "(finish i m)\<lparr>completed_sources := insert n (completed_sources (finish i m)),
                           active_workers := active_workers (finish i m) - 1\<rparr>"
  have "counted ?m1"
    using assms(1) finish_unfinished [OF assms(2)]
    by (simp add: counted_def unfinished_workers_def finish_def)
  then have c: "counted (start_workers ?m1)" by (rule start_workers_counted)
  let ?m2 = "start_workers ?m1"
  let ?m3 = "?m2\<lparr>m_db := snd (add_to_history now (m_company_name ?m2)
                                 (int (length (results ?m2))) (m_db ?m2))\<rparr>"
  have "counted (emit (Complete (length (results ?m2) > 0) (results ?m2)) ?m3)"
    using c counted_cong [of "emit (Complete (length (results ?m2) > 0) (results ?m2)) ?m3" ?m2]
    by simp
  with c show ?thesis
    by (simp add: handle_search_complete_def Let_def)
qed

lemma deliver_counted:
  assumes "counted m" and "deliver now ev m = Some m'"
  shows "counted m'"
proof (cases ev)
  case (Ev_progress i msg)
  with assms show ?thesis
    by (auto split: if_splits intro: handle_progress_update_counted)
next
  case (Ev_result i r)
  with assms show ?thesis
    by (auto split: if_splits intro: handle_search_result_counted)
next
  case (Ev_complete i ok)
  with assms show ?thesis
    by (auto split: if_splits intro: handle_search_complete_counted)
qed

lemma run_events_counted:
  "counted m \<Longrightarrow> run_events evs m = Some m' \<Longrightarrow> counted m'"
proof (induction evs arbitrary: m)
  case Nil
  then show ?case by simp
next
  case (Cons e evs)
  obtain now ev where e: "e = (now, ev)" by (cases e)
  from Cons.prems(2) e obtain m1 where d: "deliver now ev m = Some m1"
    and r: "run_events evs m1 = Some m'"
    by (auto split: option.splits)
  from deliver_counted [OF Cons.prems(1) d] have "counted m1" .
  from Cons.IH [OF this r] show ?case .
qed

lemma deliver_max: "deliver now ev m = Some m' \<Longrightarrow> max_concurrent m' = max_concurrent m"
  by (cases ev)
     (auto split: if_splits simp: handle_progress_update_def handle_search_result_def
        handle_search_complete_def finish_def Let_def)

lemma run_events_max: "run_events evs m = Some m' \<Longrightarrow> max_concurrent m' = max_concurrent m"
proof (induction evs arbitrary: m)
  case Nil
  then show ?case by simp
next
  case (Cons e evs)
  obtain now ev where e: "e = (now, ev)" by (cases e)
  from Cons.prems e obtain m1 where d: "deliver now ev m = Some m1"
    and r: "run_events evs m1 = Some m'"
    by (auto split: option.splits)
  from Cons.IH [OF r] deliver_max [OF d] show ?case by simp
qed

lemma start_search_max: "max_concurrent (start_search now srcs m) = max_concurrent m"
  by (simp add: start_search_def Let_def)

lemma running_le_unfinished: "running_workers m \<le> unfinished_workers m"
proof -
  have "length (filter (\<lambda>w. w_status w = Running) ws)
          \<le> length (filter (\<lambda>w. w_status w \<noteq> Finished) ws)" for ws :: "worker list"
    by (induction ws) auto
  then show ?thesis by (simp add: running_workers_def unfinished_workers_def)
qed

lemma init_counted:
  assumes "LogoSearchManager company st db = Inr m0" and "0 \<le> get_or (concurrent_searches st) 3"
  shows "counted m0" and "max_concurrent m0 = get_or (concurrent_searches st) 3"
  using assms
  by (auto simp: LogoSearchManager_def counted_def unfinished_workers_def split: sum.splits)

text \<open>
  C3. In every state the manager reaches from \<^verbatim>\<open>start_search\<close> by handling worker
  signals, in any order and for any registry of sources, the number of running workers
  and the counter \<^verbatim>\<open>active_workers\<close> are at most the configured bound
  \<^verbatim>\<open>concurrent_searches\<close> (default 3), for a bound that is not negative.
\<close>

theorem concurrency_bound:
  assumes "LogoSearchManager company st db = Inr m0"
    and "0 \<le> get_or (concurrent_searches st) 3"
    and "run_events evs (start_search now srcs m0) = Some m"
  shows "int (running_workers m) \<le> get_or (concurrent_searches st) 3
     \<and> active_workers m \<le> get_or (concurrent_searches st) 3
     \<and> max_concurrent m = get_or (concurrent_searches st) 3"
proof -
  have "counted (start_search now srcs m0)"
    using init_counted(1) [OF assms(1,2)] by (rule start_search_counted)
  from run_events_counted [OF this assms(3)] have c: "counted m" .
  have mx: "max_concurrent m = get_or (concurrent_searches st) 3"
    using run_events_max [OF assms(3)] start_search_max init_counted(2) [OF assms(1,2)]
    by simp
  from c mx running_le_unfinished [of m] show ?thesis
    by (simp add: counted_def)
qed

lemma acme_init: "LogoSearchManager ''Acme'' st db = Inr (acme_manager st db)"
proof -
  have "generate_company_domains ''Acme'' =
      Inr {''acme.com'', ''acme.org'', ''acme.io'', ''acme.co'', ''acme.net'', ''Acme''}"
    by code_simp
  then show ?thesis by (simp add: LogoSearchManager_def acme_manager_def)
qed

theorem concurrency_bound_witness:
  "LogoSearchManager ''Acme'' early_stop_settings empty_db
     = Inr (acme_manager early_stop_settings empty_db)
   \<and> 0 \<le> get_or (concurrent_searches early_stop_settings) 3
   \<and> (\<exists>m. run_events [(201, Ev_complete 1 False), (202, Ev_complete 0 True)]
             (start_search 200 LOGO_SOURCES (acme_manager early_stop_settings empty_db)) = Some m
          \<and> running_workers m = 2 \<and> length (search_queue m) = 7
          \<and> int (running_workers m) \<le> 2 \<and> active_workers m \<le> 2)"
proof -
  let ?r = "run_events [(201, Ev_complete 1 False), (202, Ev_complete 0 True)]
             (start_search 200 LOGO_SOURCES (acme_manager early_stop_settings empty_db))"
  have b: "0 \<le> get_or (concurrent_searches early_stop_settings) 3"
    "get_or (concurrent_searches early_stop_settings) 3 = 2"
    by (simp_all add: early_stop_settings_def no_settings_def get_or_def)
  have "?r \<noteq> None" by code_simp
  then obtain m where m: "?r = Some m" by blast
  have "running_workers (the ?r) = 2" "length (search_queue (the ?r)) = 7"
    by code_simp+
  with m have v: "running_workers m = 2" "length (search_queue m) = 7" by simp_all
  from concurrency_bound [OF acme_init b(1) m] acme_init b m v show ?thesis
    by simp
qed

lemma deliver_no_workers: "workers m = [] \<Longrightarrow> deliver now ev m = None"
  by (cases ev) (simp_all add: can_send_def)

text \<open>
  C1, evaluated where the code departs from it. With one fresh cache entry,
  \<^verbatim>\<open>max_results = 1\<close> and \<^verbatim>\<open>search_all_sources = False\<close>, \<^verbatim>\<open>start_search\<close> emits the
  completion signal and returns: no history entry is written, no worker was
  started, so no later signal can write one. With an empty cache, the first result
  of a worker triggers the early stop: the completion signal is emitted and the
  history is still empty. A second result that was already under way makes the manager
  emit the completion signal a second time.
\<close>

theorem completion_without_history:
  "LogoSearchManager ''Acme'' early_stop_settings acme_cache
     = Inr (acme_manager early_stop_settings acme_cache)
   \<and> emitted (start_search 200 LOGO_SOURCES (acme_manager early_stop_settings acme_cache))
       = [Progress (Found_in_cache 1), Result (clearbit_png ''Acme'' ''img''),
          Complete True [clearbit_png ''Acme'' ''img'']]
   \<and> search_history (m_db (start_search 200 LOGO_SOURCES
         (acme_manager early_stop_settings acme_cache))) = []
   \<and> (\<forall>now ev. deliver now ev (start_search 200 LOGO_SOURCES
         (acme_manager early_stop_settings acme_cache)) = None)
   \<and> (\<exists>m. run_events [(201, Ev_result 0 (clearbit_png ''Acme'' ''img''))]
              (start_search 200 LOGO_SOURCES (acme_manager early_stop_settings empty_db)) = Some m
          \<and> emitted m = [Result (clearbit_png ''Acme'' ''img''),
                          Complete True [clearbit_png ''Acme'' ''img'']]
          \<and> search_history (m_db m) = [])
   \<and> (\<exists>m. run_events [(201, Ev_result 0 (clearbit_png ''Acme'' ''img'')),
                        (202, Ev_result 1 (clearbit_png ''Acme'' ''img2''))]
              (start_search 200 LOGO_SOURCES (acme_manager early_stop_settings empty_db)) = Some m
          \<and> length (filter is_Complete (emitted m)) = 2
          \<and> search_history (m_db m) = [])"
proof -
  let ?hit = "start_search 200 LOGO_SOURCES (acme_manager early_stop_settings acme_cache)"
  let ?start = "start_search 200 LOGO_SOURCES (acme_manager early_stop_settings empty_db)"
  let ?one = "run_events [(201, Ev_result 0 (clearbit_png ''Acme'' ''img''))] ?start"
  let ?two = "run_events [(201, Ev_result 0 (clearbit_png ''Acme'' ''img'')),
                          (202, Ev_result 1 (clearbit_png ''Acme'' ''img2''))] ?start"
  have a: "emitted ?hit = [Progress (Found_in_cache 1), Result (clearbit_png ''Acme'' ''img''),
          Complete True [clearbit_png ''Acme'' ''img'']]"
    by code_simp
  have b: "search_history (m_db ?hit) = []"
    by code_simp
  have "workers ?hit = []"
    by code_simp
  then have c: "\<forall>now ev. deliver now ev ?hit = None"
    by (simp add: deliver_no_workers)
  have "?one \<noteq> None" by code_simp
  then obtain m1 where m1: "?one = Some m1" by blast
  have "emitted (the ?one) = [Result (clearbit_png ''Acme'' ''img''),
                          Complete True [clearbit_png ''Acme'' ''img'']]"
    "search_history (m_db (the ?one)) = []"
    by code_simp+
  with m1 have d: "\<exists>m. ?one = Some m
          \<and> emitted m = [Result (clearbit_png ''Acme'' ''img''),
                          Complete True [clearbit_png ''Acme'' ''img'']]
          \<and> search_history (m_db m) = []"
    by simp
  have "?two \<noteq> None" by code_simp
  then obtain m2 where m2: "?two = Some m2" by blast
  have "length (filter is_Complete (emitted (the ?two))) = 2"
    "search_history (m_db (the ?two)) = []"
    by code_simp+
  with m2 have e: "\<exists>m. ?two = Some m \<and> length (filter is_Complete (emitted m)) = 2
          \<and> search_history (m_db m) = []"
    by simp
  from acme_init a b c d e show ?thesis by blast
qed

text \<open>
  C2, evaluated where the code departs from it. With every source switched off and an
  empty cache, \<^verbatim>\<open>start_search\<close> changes nothing: it emits no signal, writes no history
  entry and starts no worker, so no signal can arrive later; the completion signal is
  never sent.
\<close>

theorem no_sources_no_completion:
  "LogoSearchManager ''Acme'' no_settings empty_db = Inr (acme_manager no_settings empty_db)
   \<and> filter enabled all_disabled = []
   \<and> get_from_cache 200 empty_db ''Acme'' 30 = []
   \<and> start_search 200 all_disabled (acme_manager no_settings empty_db)
       = acme_manager no_settings empty_db
   \<and> emitted (acme_manager no_settings empty_db) = []
   \<and> search_history (m_db (acme_manager no_settings empty_db)) = []
   \<and> (\<forall>now ev. deliver now ev (acme_manager no_settings empty_db) = None)"
proof -
  have a: "filter enabled all_disabled = []"
    by code_simp
  have b: "get_from_cache 200 empty_db ''Acme'' 30 = []"
    by code_simp
  have c: "start_search 200 all_disabled (acme_manager no_settings empty_db)
       = acme_manager no_settings empty_db"
    by code_simp
  have d: "emitted (acme_manager no_settings empty_db) = []"
    "search_history (m_db (acme_manager no_settings empty_db)) = []"
    "workers (acme_manager no_settings empty_db) = []"
    by (simp_all add: acme_manager_def empty_db_def)
  from acme_init a b c d deliver_no_workers show ?thesis by blast
qed

end
